theory Spec2Isabelle
  imports Main "HOL-Library.List_Lexorder"
begin

section \<open>Strings, errors and values\<close>

text \<open>
  A JavaScript string is a sequence of UTF-16 code units. Code units are natural numbers
  below \<open>2 ^ 16\<close>; the program does no arithmetic on them that could leave that range.
  \<open>===\<close> on strings is equality of the sequences, and \<open><\<close> on strings compares
  code unit by code unit, a proper prefix being smaller: the lexicographic order on lists.
\<close>

type_synonym js_string = "nat list"

definition js :: "string \<Rightarrow> js_string" where
  "js s = map of_char s"

text \<open>
  A \<open>TypeError\<close> says what could not be done: read, set or destructure the named property
  of \<open>undefined\<close> or \<open>null\<close>, call the named property that is not a function, convert an
  object to a string, or fetch a URL that is not absolute.
\<close>

datatype type_error =
    Cannot_read js_string
  | Cannot_set js_string
  | Cannot_destructure js_string
  | Not_a_function js_string
  | Cannot_convert
  | Invalid_URL

text \<open>
  What can be thrown, or reject a promise, in this program: the three built-in errors, the
  error of the HTTP client (no connection, or a body that is not JSON), the \<open>Error\<close> the
  clients throw themselves on a response that is not ok, and an error of the file system.
\<close>

datatype js_error =
    TypeError type_error
  | SyntaxError
  | URIError
  | FetchError
  | NotOk
  | SystemError

text \<open>
  An expression that may throw, and a settled promise, are a sum: \<open>Inl\<close> the error thrown or
  the reason of the rejection, \<open>Inr\<close> the value. \<open>and_then\<close> is \<open>.then(f)\<close>, and the sequencing
  of two evaluations that may throw.
\<close>

definition and_then :: "js_error + 'a \<Rightarrow> ('a \<Rightarrow> js_error + 'b) \<Rightarrow> js_error + 'b" where
  "and_then p f = (case p of Inl e \<Rightarrow> Inl e | Inr v \<Rightarrow> f v)"

text \<open>
  The values the program handles: what \<open>JSON.parse\<close> produces, and \<open>undefined\<close>. A number is
  kept as the text \<open>Number.prototype.toString\<close> gives for it, the only way this program can
  read one. An object is the list of its own properties.
\<close>

datatype jsval =
    Undefined
  | Null
  | Bool bool
  | Num js_string
  | Str js_string
  | Arr "jsval list"
  | Obj "(js_string \<times> jsval) list"

text \<open>
  Reading \<open>v.name\<close> or \<open>v['name']\<close> for the names the source writes out: \<open>@graph\<close>,
  \<open>@id\<close>, \<open>elements\<close>, \<open>identifier\<close>, \<open>server\<close>, \<open>key\<close>, \<open>secret\<close>. None of them is
  defined by a prototype, so the read finds an own property of an object or nothing; on
  \<open>undefined\<close> and \<open>null\<close> it throws.
\<close>

fun get_property :: "jsval \<Rightarrow> string \<Rightarrow> js_error + jsval" where
  "get_property Undefined name = Inl (TypeError (Cannot_read (js name)))"
| "get_property Null name = Inl (TypeError (Cannot_read (js name)))"
| "get_property (Obj properties) name =
     (case map_of properties (js name) of Some v \<Rightarrow> Inr v | None \<Rightarrow> Inr Undefined)"
| "get_property v name = Inr Undefined"

text \<open>Reading \<open>v[0]\<close>: the first element of an array, the first character of a string.\<close>

fun get_index0 :: "jsval \<Rightarrow> js_error + jsval" where
  "get_index0 Undefined = Inl (TypeError (Cannot_read (js ''0'')))"
| "get_index0 Null = Inl (TypeError (Cannot_read (js ''0'')))"
| "get_index0 (Arr xs) = (case xs of [] \<Rightarrow> Inr Undefined | x # _ \<Rightarrow> Inr x)"
| "get_index0 (Str s) = (case s of [] \<Rightarrow> Inr Undefined | c # _ \<Rightarrow> Inr (Str [c]))"
| "get_index0 (Obj properties) =
     (case map_of properties (js ''0'') of Some v \<Rightarrow> Inr v | None \<Rightarrow> Inr Undefined)"
| "get_index0 v = Inr Undefined"

text \<open>
  Calling \<open>v.map(f)\<close>: only an array has a callable \<open>map\<close>; on \<open>undefined\<close> and \<open>null\<close>
  already the read of \<open>map\<close> throws. The callback runs on the elements in order and the first
  throw ends the call.
\<close>

fun map_all :: "('a \<Rightarrow> js_error + 'b) \<Rightarrow> 'a list \<Rightarrow> js_error + 'b list" where
  "map_all f [] = Inr []"
| "map_all f (x # xs) =
     (case f x of
        Inl e \<Rightarrow> Inl e
      | Inr y \<Rightarrow> (case map_all f xs of Inl e \<Rightarrow> Inl e | Inr ys \<Rightarrow> Inr (y # ys)))"

fun call_map :: "jsval \<Rightarrow> (jsval \<Rightarrow> js_error + jsval) \<Rightarrow> js_error + jsval" where
  "call_map (Arr xs) f = (case map_all f xs of Inl e \<Rightarrow> Inl e | Inr ys \<Rightarrow> Inr (Arr ys))"
| "call_map Undefined f = Inl (TypeError (Cannot_read (js ''map'')))"
| "call_map Null f = Inl (TypeError (Cannot_read (js ''map'')))"
| "call_map v f = Inl (TypeError (Not_a_function (js ''map'')))"

text \<open>
  The conversion to a string that a template literal applies to each substitution. An array
  joins its elements with commas, \<open>undefined\<close> and \<open>null\<close> elements giving the empty string.
  An object gives \<open>[object Object]\<close>, unless it has an own property \<open>toString\<close>: that one is
  a JSON value, not a function, and the conversion throws.
\<close>

fun join_with :: "js_string \<Rightarrow> js_string list \<Rightarrow> js_string" where
  "join_with sep [] = []"
| "join_with sep [s] = s"
| "join_with sep (s # t # ss) = s @ sep @ join_with sep (t # ss)"

fun to_string :: "jsval \<Rightarrow> js_error + js_string"
  and to_strings :: "jsval list \<Rightarrow> js_error + js_string list" where
  "to_string Undefined = Inr (js ''undefined'')"
| "to_string Null = Inr (js ''null'')"
| "to_string (Bool b) = Inr (if b then js ''true'' else js ''false'')"
| "to_string (Num digits) = Inr digits"
| "to_string (Str s) = Inr s"
| "to_string (Arr xs) =
     (case to_strings xs of Inl e \<Rightarrow> Inl e | Inr ss \<Rightarrow> Inr (join_with (js '','') ss))"
| "to_string (Obj properties) =
     (if js ''toString'' \<in> fst ` set properties then Inl (TypeError Cannot_convert)
      else Inr (js ''[object Object]''))"
| "to_strings [] = Inr []"
| "to_strings (x # xs) =
     (case (if x = Undefined \<or> x = Null then Inr [] else to_string x) of
        Inl e \<Rightarrow> Inl e
      | Inr s \<Rightarrow> (case to_strings xs of Inl e \<Rightarrow> Inl e | Inr ss \<Rightarrow> Inr (s # ss)))"

section \<open>The auth encoder\<close>

text \<open>
  \<open>keypairToAuth\<close> is
  \<^verbatim>\<open>`Basic ${Buffer.from(unescape(encodeURIComponent(`${key}:${secret}`))).toString('base64')}`\<close>.
  The four library functions are modelled from ECMAScript and the Node.js documentation.
\<close>

text \<open>The UTF-8 octets of a code point.\<close>

definition utf8 :: "nat \<Rightarrow> nat list" where
  "utf8 cp =
     (if cp < 0x80 then [cp]
      else if cp < 0x800 then [0xC0 + cp div 0x40, 0x80 + cp mod 0x40]
      else if cp < 0x10000 then
        [0xE0 + cp div 0x1000, 0x80 + cp div 0x40 mod 0x40, 0x80 + cp mod 0x40]
      else
        [0xF0 + cp div 0x40000, 0x80 + cp div 0x1000 mod 0x40,
         0x80 + cp div 0x40 mod 0x40, 0x80 + cp mod 0x40])"

text \<open>The code point of a high surrogate followed by a low surrogate.\<close>

definition surrogate_pair :: "nat \<Rightarrow> nat \<Rightarrow> nat" where
  "surrogate_pair hi lo = 0x10000 + (hi - 0xD800) * 0x400 + (lo - 0xDC00)"

definition hex_digit :: "nat \<Rightarrow> nat" where
  "hex_digit n = (if n < 10 then 48 + n else 55 + n)"

text \<open>An octet as \<open>%\<close> and two upper-case hexadecimal digits.\<close>

definition percent :: "nat \<Rightarrow> js_string" where
  "percent octet = [37, hex_digit (octet div 16), hex_digit (octet mod 16)]"

text \<open>
  The code units \<open>encodeURIComponent\<close> leaves as they are: letters, digits and
  \<^verbatim>\<open>- _ . ! ~ * ' ( )\<close>.
\<close>

definition unreserved :: "nat \<Rightarrow> bool" where
  "unreserved c \<longleftrightarrow>
     (65 \<le> c \<and> c \<le> 90) \<or> (97 \<le> c \<and> c \<le> 122) \<or> (48 \<le> c \<and> c \<le> 57) \<or>
     c \<in> set [45, 95, 46, 33, 126, 42, 39, 40, 41]"

text \<open>
  \<open>encodeURIComponent\<close> replaces every other code point by the escapes of its UTF-8 octets,
  and throws a \<open>URIError\<close> on a surrogate that is not half of a pair.
\<close>

fun encodeURIComponent :: "js_string \<Rightarrow> js_error + js_string" where
  "encodeURIComponent [] = Inr []"
| "encodeURIComponent (c # cs) =
     (if unreserved c then
        and_then (encodeURIComponent cs) (\<lambda>r. Inr (c # r))
      else if c < 0xD800 \<or> 0xDFFF < c then
        and_then (encodeURIComponent cs) (\<lambda>r. Inr (concat (map percent (utf8 c)) @ r))
      else if 0xDC00 \<le> c then Inl URIError
      else
        (case cs of
           [] \<Rightarrow> Inl URIError
         | d # ds \<Rightarrow>
             if 0xDC00 \<le> d \<and> d \<le> 0xDFFF then
               and_then (encodeURIComponent ds)
                 (\<lambda>r. Inr (concat (map percent (utf8 (surrogate_pair c d))) @ r))
             else Inl URIError))"

definition hex_value :: "nat \<Rightarrow> nat option" where
  "hex_value c =
     (if 48 \<le> c \<and> c \<le> 57 then Some (c - 48)
      else if 65 \<le> c \<and> c \<le> 70 then Some (c - 55)
      else if 97 \<le> c \<and> c \<le> 102 then Some (c - 87)
      else None)"

fun hex_digits :: "nat \<Rightarrow> js_string \<Rightarrow> nat option" where
  "hex_digits acc [] = Some acc"
| "hex_digits acc (c # cs) =
     (case hex_value c of None \<Rightarrow> None | Some v \<Rightarrow> hex_digits (16 * acc + v) cs)"

definition hex_number :: "nat \<Rightarrow> js_string \<Rightarrow> nat option" where
  "hex_number n cs = (if length cs = n then hex_digits 0 cs else None)"

text \<open>
  \<open>unescape\<close> replaces \<open>%uXXXX\<close> and \<open>%XX\<close> by the code unit with that number and copies
  everything else.
\<close>

fun unescape :: "js_string \<Rightarrow> js_string" where
  "unescape [] = []"
| "unescape (c # cs) =
     (if c = 37 then
        (case (if take 1 cs = [117] then hex_number 4 (take 4 (drop 1 cs)) else None) of
           Some v \<Rightarrow> v # unescape (drop 5 cs)
         | None \<Rightarrow>
             (case hex_number 2 (take 2 cs) of
                Some v \<Rightarrow> v # unescape (drop 2 cs)
              | None \<Rightarrow> c # unescape cs))
      else c # unescape cs)"

text \<open>
  \<open>Buffer.from(string)\<close>, called without an encoding, takes \<open>'utf8'\<close>: the bytes are the
  UTF-8 octets of the string's code points, a lone surrogate becoming U+FFFD.
\<close>

fun Buffer_from :: "js_string \<Rightarrow> nat list" where
  "Buffer_from [] = []"
| "Buffer_from (c # cs) =
     (if c < 0xD800 \<or> 0xDFFF < c then utf8 c @ Buffer_from cs
      else if c < 0xDC00 then
        (case cs of
           [] \<Rightarrow> [0xEF, 0xBF, 0xBD]
         | d # ds \<Rightarrow>
             if 0xDC00 \<le> d \<and> d \<le> 0xDFFF then utf8 (surrogate_pair c d) @ Buffer_from ds
             else [0xEF, 0xBF, 0xBD] @ Buffer_from cs)
      else [0xEF, 0xBF, 0xBD] @ Buffer_from cs)"

text \<open>\<open>buffer.toString('base64')\<close>: the standard alphabet, padded with \<open>=\<close>.\<close>

definition base64_char :: "nat \<Rightarrow> nat" where
  "base64_char n =
     (if n < 26 then 65 + n
      else if n < 52 then 71 + n
      else if n < 62 then n - 4
      else if n = 62 then 43
      else 47)"

fun toString_base64 :: "nat list \<Rightarrow> js_string" where
  "toString_base64 [] = []"
| "toString_base64 [a] =
     [base64_char (a div 4), base64_char (a mod 4 * 16), 61, 61]"
| "toString_base64 [a, b] =
     [base64_char (a div 4), base64_char (a mod 4 * 16 + b div 16),
      base64_char (b mod 16 * 4), 61]"
| "toString_base64 (a # b # c # rest) =
     [base64_char (a div 4), base64_char (a mod 4 * 16 + b div 16),
      base64_char (b mod 16 * 4 + c div 64), base64_char (c mod 64)] @ toString_base64 rest"

definition keypairToAuth :: "jsval \<Rightarrow> jsval \<Rightarrow> js_error + js_string" where
  "keypairToAuth key secret =
     and_then (to_string key) (\<lambda>k.
     and_then (to_string secret) (\<lambda>s.
     and_then (encodeURIComponent (k @ js '':'' @ s)) (\<lambda>escaped.
       Inr (js ''Basic '' @ toString_base64 (Buffer_from (unescape escaped))))))"

section \<open>The environment\<close>

text \<open>
  A request as the four clients send it. All of them send the same three headers. The body
  of a PUT is the value handed to \<open>JSON.stringify\<close>.
\<close>

datatype http_method = GET | PUT

record request =
  verb :: http_method
  url :: js_string
  headers :: "(string \<times> js_string) list"
  body :: "jsval option"

text \<open>A response: \<open>response.ok\<close>, true for a 2xx status, and the text of the body.\<close>

datatype response = Response (ok: bool) (payload: js_string)

text \<open>What the program prints: the stream, the format string and its arguments.\<close>

datatype stream = Stdout | Stderr

datatype argument = Thrown js_error | Size nat | Identifiers "js_string list"

datatype line = Line stream string "argument list"

text \<open>
  The state a run changes: the state of the server, the requests sent so far and the lines
  printed so far.
\<close>

record 's world =
  remote :: 's
  sent :: "request list"
  console :: "line list"

text \<open>
  What the program is run against and does not define itself: the file system, \<open>JSON.parse\<close>
  (\<open>None\<close> where it throws a \<open>SyntaxError\<close>), \<open>fetch\<close>, which settles to an error or to a
  response and may change the state of the server, and the prototypes of the runtime:
  \<open>inherits v name\<close> holds when the prototype chain of the value \<open>v\<close> has a property of that
  name, as every object has \<open>constructor\<close> and \<open>toString\<close>.
\<close>

record 's runtime =
  fs_readFile :: "js_string \<Rightarrow> js_error + js_string"
  JSON_parse :: "js_string \<Rightarrow> jsval option"
  fetch :: "request \<Rightarrow> 's \<Rightarrow> (js_error + response) \<times> 's"
  inherits :: "jsval \<Rightarrow> js_string \<Rightarrow> bool"

definition send ::
  "'s runtime \<Rightarrow> request \<Rightarrow> 's world \<Rightarrow> (js_error + response) \<times> 's world" where
  "send rt req w =
     (case fetch rt req (remote w) of
        (settled, remote') \<Rightarrow> (settled, w\<lparr>remote := remote', sent := sent w @ [req]\<rparr>))"

definition print :: "line \<Rightarrow> 's world \<Rightarrow> 's world" where
  "print l w = w\<lparr>console := console w @ [l]\<rparr>"

text \<open>\<open>response.json()\<close> rejects when the body is not JSON.\<close>

definition response_json :: "'s runtime \<Rightarrow> response \<Rightarrow> js_error + jsval" where
  "response_json rt response =
     (case JSON_parse rt (payload response) of None \<Rightarrow> Inl FetchError | Some v \<Rightarrow> Inr v)"

definition json_headers :: "js_string \<Rightarrow> (string \<times> js_string) list" where
  "json_headers auth =
     [(''Accept'', js ''application/json''),
      (''Content-Type'', js ''application/json''),
      (''Authorization'', auth)]"

section \<open>The credential loader\<close>

definition readFile :: "'s runtime \<Rightarrow> js_string \<Rightarrow> js_error + js_string" where
  "readFile rt path =
     (case fs_readFile rt path of Inl err \<Rightarrow> Inl err | Inr contents \<Rightarrow> Inr contents)"

definition readKeyfile :: "'s runtime \<Rightarrow> js_string \<Rightarrow> js_error + jsval" where
  "readKeyfile rt keyfile =
     and_then (readFile rt keyfile)
       (\<lambda>results. case JSON_parse rt results of None \<Rightarrow> Inl SyntaxError | Some v \<Rightarrow> Inr v)"

section \<open>The four clients\<close>

text \<open>
  Each client is an \<open>async\<close> function: it returns a settled promise and the changed world.
  The URL is built before anything is sent, so a throw there rejects the promise with
  nothing sent. After that the chain is \<open>fetch(...).then(...).then(...).catch(...)\<close>: the
  handler of \<open>catch\<close> prints and returns nothing, so the promise is fulfilled with
  \<open>undefined\<close>.
\<close>

definition getSearchIds ::
  "'s runtime \<Rightarrow> jsval \<Rightarrow> js_string \<Rightarrow> js_string \<Rightarrow> 's world
     \<Rightarrow> (js_error + jsval) \<times> 's world" where
  "getSearchIds rt host query auth w =
     (case to_string host of
        Inl e \<Rightarrow> (Inl e, w)
      | Inr h \<Rightarrow>
          (case send rt
                  \<lparr>verb = GET, url = h @ js ''/search/?'' @ query @ js ''&limit=all'',
                   headers = json_headers auth, body = None\<rparr> w of
             (fetched, w') \<Rightarrow>
               (case and_then
                       (and_then fetched
                          (\<lambda>response.
                             if ok response then response_json rt response else Inl NotOk))
                       (\<lambda>results.
                          and_then (get_property results ''@graph'')
                            (\<lambda>graph. call_map graph (\<lambda>result. get_property result ''@id''))) of
                  Inr ids \<Rightarrow> (Inr ids, w')
                | Inl e \<Rightarrow>
                    (Inr Undefined,
                     print (Line Stdout ''OBJECT LOAD ERROR: %s'' [Thrown e]) w'))))"

definition getWriteableCartObject ::
  "'s runtime \<Rightarrow> jsval \<Rightarrow> jsval \<Rightarrow> js_string \<Rightarrow> 's world
     \<Rightarrow> (js_error + jsval) \<times> 's world" where
  "getWriteableCartObject rt host cartAtId auth w =
     (case and_then (to_string host) (\<lambda>h. and_then (to_string cartAtId) (\<lambda>c. Inr (h @ c))) of
        Inl e \<Rightarrow> (Inl e, w)
      | Inr target \<Rightarrow>
          (case send rt
                  \<lparr>verb = GET, url = target @ js ''?frame=edit'',
                   headers = json_headers auth, body = None\<rparr> w of
             (fetched, w') \<Rightarrow>
               (case and_then fetched
                       (\<lambda>response.
                          if ok response then response_json rt response else Inl NotOk) of
                  Inr cart \<Rightarrow> (Inr cart, w')
                | Inl err \<Rightarrow>
                    (Inr Undefined,
                     print (Line Stderr ''Retrieving writeable cart object'' [Thrown err]) w'))))"

definition writeCart ::
  "'s runtime \<Rightarrow> jsval \<Rightarrow> jsval \<Rightarrow> js_string \<Rightarrow> 's world
     \<Rightarrow> (js_error + jsval) \<times> 's world" where
  "writeCart rt host cart auth w =
     (case and_then (to_string host) (\<lambda>h.
           and_then (get_property cart ''identifier'') (\<lambda>identifier.
           and_then (to_string identifier) (\<lambda>i. Inr (h @ js ''/carts/'' @ i)))) of
        Inl e \<Rightarrow> (Inl e, w)
      | Inr target \<Rightarrow>
          (case send rt
                  \<lparr>verb = PUT, url = target, headers = json_headers auth,
                   body = Some cart\<rparr> w of
             (fetched, w') \<Rightarrow>
               (case and_then
                       (and_then fetched
                          (\<lambda>response.
                             if ok response then response_json rt response else Inl NotOk))
                       (\<lambda>results.
                          and_then (get_property results ''@graph'')
                            (\<lambda>graph. and_then (get_index0 graph)
                               (\<lambda>first. get_property first ''elements''))) of
                  Inr elements \<Rightarrow> (Inr elements, w')
                | Inl e \<Rightarrow>
                    (Inr Undefined,
                     print (Line Stdout ''OBJECT LOAD ERROR: %s'' [Thrown e]) w'))))"

definition searchCart ::
  "'s runtime \<Rightarrow> jsval \<Rightarrow> jsval \<Rightarrow> js_string \<Rightarrow> 's world
     \<Rightarrow> (js_error + jsval) \<times> 's world" where
  "searchCart rt host cartId auth w =
     (case and_then (to_string host) (\<lambda>h. and_then (to_string cartId) (\<lambda>c.
             Inr (h @ js ''/cart-search/?cart='' @ c @ js ''&limit=all''))) of
        Inl e \<Rightarrow> (Inl e, w)
      | Inr target \<Rightarrow>
          (case send rt
                  \<lparr>verb = GET, url = target, headers = json_headers auth, body = None\<rparr> w of
             (fetched, w') \<Rightarrow>
               (case and_then
                       (and_then fetched
                          (\<lambda>response.
                             if ok response then response_json rt response else Inl NotOk))
                       (\<lambda>results.
                          and_then (get_property results ''@graph'')
                            (\<lambda>graph. call_map graph (\<lambda>result. get_property result ''@id''))) of
                  Inr ids \<Rightarrow> (Inr ids, w')
                | Inl err \<Rightarrow>
                    (Inr Undefined,
                     print (Line Stderr ''SEARCH CART ERROR %o'' [Thrown err]) w'))))"

section \<open>The set comparator\<close>

text \<open>\<open>compareCarts\<close> returns either \<open>false\<close> or an array of identifiers.\<close>

datatype comparison = ReturnsFalse | Differences "js_string list"

text \<open>
  Reading \<open>xs[i]\<close>: an index past the end yields \<open>undefined\<close>, here \<open>None\<close>, which is
  \<open>!==\<close> to every string.
\<close>

definition at_index :: "'a list \<Rightarrow> nat \<Rightarrow> 'a option" where
  "at_index xs i = (if i < length xs then Some (xs ! i) else None)"

text \<open>
  \<open>_.sortBy(list)\<close> with no iteratee sorts the values themselves, ascending under \<open><\<close>, and
  keeps equal values in their original order; it returns a new array. The library is not part
  of the repository: on strings it is the stable sort under the order above.
\<close>

definition sortBy :: "js_string list \<Rightarrow> js_string list" where
  "sortBy xs = sort xs"

text \<open>
  \<open>Array.prototype.filter\<close> calls its predicate with the element and its index, from index
  \<open>0\<close> upwards, and keeps the elements for which it holds.
\<close>

fun filter_from :: "nat \<Rightarrow> ('a \<Rightarrow> nat \<Rightarrow> bool) \<Rightarrow> 'a list \<Rightarrow> 'a list" where
  "filter_from index p [] = []"
| "filter_from index p (x # xs) =
     (if p x index then x # filter_from (Suc index) p xs else filter_from (Suc index) p xs)"

definition compareCarts :: "js_string list \<Rightarrow> js_string list \<Rightarrow> comparison" where
  "compareCarts cart0 cart1 =
     (if length cart0 = length cart1 then
        (let sortedCart0 = sortBy cart0;
             sortedCart1 = sortBy cart1
         in Differences
              (filter_from 0
                 (\<lambda>cart0Item index. Some cart0Item \<noteq> at_index sortedCart1 index)
                 sortedCart0))
      else ReturnsFalse)"

section \<open>The orchestrator\<close>

text \<open>
  The command-line options \<open>main\<close> reads, each flag given with its argument or left at its
  default. \<open>--cart\<close> has no default: without it \<open>program.cart\<close> is \<open>undefined\<close>.
\<close>

record program =
  program_key :: js_string
  program_keyfile :: js_string
  program_cart :: "js_string option"
  program_query :: js_string

definition cart_argument :: "program \<Rightarrow> jsval" where
  "cart_argument program = (case program_cart program of None \<Rightarrow> Undefined | Some c \<Rightarrow> Str c)"

subsection \<open>Selecting the entry of the keyfile\<close>

text \<open>
  \<open>keyFileData[program.key]\<close> reads a property whose name is known only when the program
  runs. It finds an own property of the value, or a built-in of the runtime on the prototype
  chain (a function such as \<open>constructor\<close>, or the prototype itself for \<open>__proto__\<close>), or
  nothing, which is \<open>undefined\<close>.
\<close>

datatype selected = Found jsval | Builtin

text \<open>A number as a property name and as the text of a length: decimal digits.\<close>

fun decimal :: "nat \<Rightarrow> js_string" where
  "decimal n = (if n < 10 then [48 + n] else decimal (n div 10) @ [48 + n mod 10])"

declare decimal.simps [simp del]

fun digits_value :: "nat \<Rightarrow> js_string \<Rightarrow> nat option" where
  "digits_value acc [] = Some acc"
| "digits_value acc (c # cs) =
     (if 48 \<le> c \<and> c \<le> 57 then digits_value (10 * acc + (c - 48)) cs else None)"

text \<open>The index a property name stands for: digits without a leading zero.\<close>

definition array_index :: "js_string \<Rightarrow> nat option" where
  "array_index name =
     (case name of
        [] \<Rightarrow> None
      | c # cs \<Rightarrow> if c = 48 then (if cs = [] then Some 0 else None) else digits_value 0 name)"

definition inherited :: "'s runtime \<Rightarrow> jsval \<Rightarrow> js_string \<Rightarrow> selected" where
  "inherited rt v name = (if inherits rt v name then Builtin else Found Undefined)"

text \<open>
  The own properties of an object are its members, those of an array and of a string are
  \<open>length\<close> and the indices; a number and a boolean have none.
\<close>

fun get_computed :: "'s runtime \<Rightarrow> jsval \<Rightarrow> js_string \<Rightarrow> js_error + selected" where
  "get_computed rt Undefined name = Inl (TypeError (Cannot_read name))"
| "get_computed rt Null name = Inl (TypeError (Cannot_read name))"
| "get_computed rt (Obj properties) name =
     (case map_of properties name of
        Some v \<Rightarrow> Inr (Found v)
      | None \<Rightarrow> Inr (inherited rt (Obj properties) name))"
| "get_computed rt (Arr xs) name =
     (if name = js ''length'' then Inr (Found (Num (decimal (length xs))))
      else
        (case array_index name of
           Some i \<Rightarrow>
             if i < length xs then Inr (Found (xs ! i)) else Inr (inherited rt (Arr xs) name)
         | None \<Rightarrow> Inr (inherited rt (Arr xs) name)))"
| "get_computed rt (Str s) name =
     (if name = js ''length'' then Inr (Found (Num (decimal (length s))))
      else
        (case array_index name of
           Some i \<Rightarrow>
             if i < length s then Inr (Found (Str [s ! i])) else Inr (inherited rt (Str s) name)
         | None \<Rightarrow> Inr (inherited rt (Str s) name)))"
| "get_computed rt v name = Inr (inherited rt v name)"

text \<open>
  \<open>const { server } = entry\<close> and \<open>entry.key\<close>: both throw on \<open>undefined\<close> and \<open>null\<close>, with
  different errors. No built-in has a property \<open>server\<close>, \<open>key\<close> or \<open>secret\<close>.
\<close>

definition destructure :: "selected \<Rightarrow> string \<Rightarrow> js_error + jsval" where
  "destructure entry name =
     (case entry of
        Builtin \<Rightarrow> Inr Undefined
      | Found v \<Rightarrow>
          if v = Undefined \<or> v = Null then Inl (TypeError (Cannot_destructure (js name)))
          else get_property v name)"

definition read_selected :: "selected \<Rightarrow> string \<Rightarrow> js_error + jsval" where
  "read_selected entry name =
     (case entry of Builtin \<Rightarrow> Inr Undefined | Found v \<Rightarrow> get_property v name)"

text \<open>
  The first three statements of \<open>main\<close>: the keyfile, the server of the selected entry, and
  the authorization string from its key and secret. The entry is read three times, as in the
  source.
\<close>

definition credentials :: "'s runtime \<Rightarrow> program \<Rightarrow> js_error + (jsval \<times> js_string)" where
  "credentials rt program =
     and_then (readKeyfile rt (program_keyfile program)) (\<lambda>keyFileData.
     and_then (get_computed rt keyFileData (program_key program)) (\<lambda>entry.
     and_then (destructure entry ''server'') (\<lambda>server.
     and_then (get_computed rt keyFileData (program_key program)) (\<lambda>entry_key.
     and_then (read_selected entry_key ''key'') (\<lambda>k.
     and_then (get_computed rt keyFileData (program_key program)) (\<lambda>entry_secret.
     and_then (read_selected entry_secret ''secret'') (\<lambda>s.
     and_then (keypairToAuth k s) (\<lambda>auth. Inr (server, auth)))))))))"

subsection \<open>The steps on the cart\<close>

text \<open>
  The assignment \<open>cart.name = x\<close>, giving the cart after it. On \<open>undefined\<close> and \<open>null\<close> it
  throws. On an object it changes the property or adds it. On an array it adds a property
  that nothing reads afterwards (\<open>JSON.stringify\<close> writes the elements only), and on a
  string, a number or a boolean it does nothing: the script has no \<open>'use strict'\<close>.
\<close>

fun set_property :: "jsval \<Rightarrow> string \<Rightarrow> jsval \<Rightarrow> js_error + jsval" where
  "set_property Undefined name x = Inl (TypeError (Cannot_set (js name)))"
| "set_property Null name x = Inl (TypeError (Cannot_set (js name)))"
| "set_property (Obj properties) name x =
     Inr (Obj (if js name \<in> fst ` set properties
               then map (\<lambda>(k, old). if k = js name then (k, x) else (k, old)) properties
               else properties @ [(js name, x)]))"
| "set_property v name x = Inr v"

text \<open>
  The comparison is modelled on arrays of strings, what the clients return from a server
  that answers as the interface says, and on \<open>undefined\<close> and \<open>null\<close>, where reading
  \<open>length\<close> throws. On other values the step is \<open>Unmodelled\<close>.
\<close>

datatype 'a completion = Normal 'a | Throw js_error | Unmodelled

fun strings :: "jsval list \<Rightarrow> js_string list option" where
  "strings [] = Some []"
| "strings (Str s # vs) = map_option (\<lambda>ss. s # ss) (strings vs)"
| "strings (v # vs) = None"

text \<open>
  The call \<open>compareCarts(updatedCart, searchedCart)\<close> on what the two clients resolved to,
  with the two lengths the report prints.
\<close>

fun compared :: "jsval \<Rightarrow> jsval \<Rightarrow> (comparison \<times> nat \<times> nat) completion" where
  "compared Undefined cart1 = Throw (TypeError (Cannot_read (js ''length'')))"
| "compared Null cart1 = Throw (TypeError (Cannot_read (js ''length'')))"
| "compared cart0 Undefined = Throw (TypeError (Cannot_read (js ''length'')))"
| "compared cart0 Null = Throw (TypeError (Cannot_read (js ''length'')))"
| "compared (Arr xs) (Arr ys) =
     (case (strings xs, strings ys) of
        (Some cart0, Some cart1) \<Rightarrow> Normal (compareCarts cart0 cart1, length cart0, length cart1)
      | _ \<Rightarrow> Unmodelled)"
| "compared cart0 cart1 = Unmodelled"

definition report :: "comparison \<times> nat \<times> nat \<Rightarrow> line" where
  "report result =
     (case result of
        (ReturnsFalse, size0, size1) \<Rightarrow>
          Line Stdout ''Different contents Cart size: %s -- Search size %s''
            [Size size0, Size size1]
      | (Differences ids, size0, size1) \<Rightarrow> Line Stdout ''Differences: %o'' [Identifiers ids])"

subsection \<open>The run\<close>

text \<open>
  \<open>main\<close> awaits each step in turn; a throw or a rejected promise rejects the promise of
  \<open>main\<close> and nothing after it runs.
\<close>

definition main :: "'s runtime \<Rightarrow> program \<Rightarrow> 's world \<Rightarrow> unit completion \<times> 's world" where
  "main rt program w =
     (case credentials rt program of
        Inl e \<Rightarrow> (Throw e, w)
      | Inr (server, auth) \<Rightarrow>
     (case getSearchIds rt server (program_query program) auth w of
        (Inl e, w1) \<Rightarrow> (Throw e, w1)
      | (Inr itemIds, w1) \<Rightarrow>
     (case getWriteableCartObject rt server (cart_argument program) auth w1 of
        (Inl e, w2) \<Rightarrow> (Throw e, w2)
      | (Inr cart, w2) \<Rightarrow>
     (case set_property cart ''elements'' itemIds of
        Inl e \<Rightarrow> (Throw e, w2)
      | Inr cart' \<Rightarrow>
     (case writeCart rt server cart' auth w2 of
        (Inl e, w3) \<Rightarrow> (Throw e, w3)
      | (Inr updatedCart, w3) \<Rightarrow>
     (case searchCart rt server (cart_argument program) auth w3 of
        (Inl e, w4) \<Rightarrow> (Throw e, w4)
      | (Inr searchedCart, w4) \<Rightarrow>
     (case compared updatedCart searchedCart of
        Throw e \<Rightarrow> (Throw e, w4)
      | Unmodelled \<Rightarrow> (Unmodelled, w4)
      | Normal result \<Rightarrow> (Normal (), print (report result) w4))))))))"

text \<open>
  The last statement of the script is the bare call \<open>main();\<close>: the promise it returns gets
  no handler. When the promise is fulfilled the process ends normally. When it is rejected,
  the rejection is unhandled: as the specification's section on the process exit has it, an
  unhandled exception terminates the process with a status that is not zero, which is what
  Node.js does from version 15 on. The runtime, not the program, prints the error.
\<close>

datatype ending = Exits_normally | Aborts js_error | Ending_unmodelled

definition script :: "'s runtime \<Rightarrow> program \<Rightarrow> 's world \<Rightarrow> ending \<times> 's world" where
  "script rt program w =
     (case main rt program w of
        (Normal u, w') \<Rightarrow> (Exits_normally, w')
      | (Throw e, w') \<Rightarrow> (Aborts e, w')
      | (Unmodelled, w') \<Rightarrow> (Ending_unmodelled, w'))"

section \<open>What the specification states the code against\<close>

subsection \<open>For the set comparator\<close>

text \<open>
  The specification's wording of the result: walk two sequences pairwise by index and collect
  every element of the first whose counterpart in the second differs.
\<close>

definition positional_difference :: "'a list \<Rightarrow> 'a list \<Rightarrow> 'a list" where
  "positional_difference xs ys = map fst (filter (\<lambda>(x, y). x \<noteq> y) (zip xs ys))"

text \<open>The symmetric difference of two sets: what is in exactly one of them.\<close>

definition symmetric_difference :: "'a set \<Rightarrow> 'a set \<Rightarrow> 'a set" where
  "symmetric_difference A B = (A - B) \<union> (B - A)"

subsection \<open>For the clients\<close>

text \<open>The field of an element of a response: \<open>undefined\<close> where there is none.\<close>

definition field_of :: "jsval \<Rightarrow> string \<Rightarrow> jsval" where
  "field_of v name =
     (case v of
        Obj properties \<Rightarrow> (case map_of properties (js name) of Some x \<Rightarrow> x | None \<Rightarrow> Undefined)
      | _ \<Rightarrow> Undefined)"

subsection \<open>For the auth encoder\<close>

text \<open>
  The decoding the specification's round trip applies to a header: take the payload after
  \<open>Basic \<close>, decode it from base64, read the bytes as UTF-8, split at the first colon.
\<close>

definition base64_value :: "nat \<Rightarrow> nat option" where
  "base64_value c =
     (if 65 \<le> c \<and> c \<le> 90 then Some (c - 65)
      else if 97 \<le> c \<and> c \<le> 122 then Some (c - 71)
      else if 48 \<le> c \<and> c \<le> 57 then Some (c + 4)
      else if c = 43 then Some 62
      else if c = 47 then Some 63
      else None)"

fun base64_decode :: "js_string \<Rightarrow> nat list option" where
  "base64_decode [] = Some []"
| "base64_decode (a # b # c # d # rest) =
     (case (base64_value a, base64_value b) of
        (Some p, Some q) \<Rightarrow>
          if c = 61 then
            (if d = 61 \<and> rest = [] then Some [p * 4 + q div 16] else None)
          else
            (case base64_value c of
               None \<Rightarrow> None
             | Some r \<Rightarrow>
                 if d = 61 then
                   (if rest = [] then Some [p * 4 + q div 16, q mod 16 * 16 + r div 4]
                    else None)
                 else
                   (case base64_value d of
                      None \<Rightarrow> None
                    | Some s \<Rightarrow>
                        map_option
                          (\<lambda>bytes.
                             (p * 4 + q div 16) # (q mod 16 * 16 + r div 4) # (r mod 4 * 64 + s)
                               # bytes)
                          (base64_decode rest)))
      | _ \<Rightarrow> None)"
| "base64_decode _ = None"

definition continuation :: "nat \<Rightarrow> bool" where
  "continuation b \<longleftrightarrow> 0x80 \<le> b \<and> b < 0xC0"

definition utf16 :: "nat \<Rightarrow> js_string" where
  "utf16 cp =
     (if cp < 0x10000 then [cp]
      else [0xD800 + (cp - 0x10000) div 0x400, 0xDC00 + (cp - 0x10000) mod 0x400])"

fun utf8_decode :: "nat list \<Rightarrow> js_string option" where
  "utf8_decode [] = Some []"
| "utf8_decode (a # bs) =
     (if a < 0x80 then map_option (\<lambda>s. a # s) (utf8_decode bs)
      else if 0xC2 \<le> a \<and> a < 0xE0 then
        (case bs of
           b # rest \<Rightarrow>
             if continuation b then
               map_option (\<lambda>s. ((a - 0xC0) * 0x40 + (b - 0x80)) # s) (utf8_decode rest)
             else None
         | _ \<Rightarrow> None)
      else if 0xE0 \<le> a \<and> a < 0xF0 then
        (case bs of
           b # c # rest \<Rightarrow>
             (let cp = (a - 0xE0) * 0x1000 + (b - 0x80) * 0x40 + (c - 0x80)
              in if continuation b \<and> continuation c \<and> 0x800 \<le> cp \<and>
                    \<not> (0xD800 \<le> cp \<and> cp < 0xE000)
                 then map_option (\<lambda>s. cp # s) (utf8_decode rest)
                 else None)
         | _ \<Rightarrow> None)
      else if 0xF0 \<le> a \<and> a < 0xF5 then
        (case bs of
           b # c # d # rest \<Rightarrow>
             (let cp = (a - 0xF0) * 0x40000 + (b - 0x80) * 0x1000 + (c - 0x80) * 0x40
                       + (d - 0x80)
              in if continuation b \<and> continuation c \<and> continuation d \<and>
                    0x10000 \<le> cp \<and> cp < 0x110000
                 then map_option (\<lambda>s. utf16 cp @ s) (utf8_decode rest)
                 else None)
         | _ \<Rightarrow> None)
      else None)"

fun split_first_colon :: "js_string \<Rightarrow> (js_string \<times> js_string) option" where
  "split_first_colon [] = None"
| "split_first_colon (c # cs) =
     (if c = 58 then Some ([], cs)
      else map_option (\<lambda>(before, after). (c # before, after)) (split_first_colon cs))"

definition decode_basic :: "js_string \<Rightarrow> (js_string \<times> js_string) option" where
  "decode_basic header =
     (if take 6 header = js ''Basic '' then
        Option.bind (base64_decode (drop 6 header)) (\<lambda>bytes.
        Option.bind (utf8_decode bytes) split_first_colon)
      else None)"

text \<open>Encoding a key and a secret, then decoding the header.\<close>

definition round_trip :: "js_string \<Rightarrow> js_string \<Rightarrow> (js_string \<times> js_string) option" where
  "round_trip key secret =
     (case keypairToAuth (Str key) (Str secret) of
        Inl e \<Rightarrow> None
      | Inr header \<Rightarrow> decode_basic header)"

definition ascii :: "js_string \<Rightarrow> bool" where
  "ascii s \<longleftrightarrow> (\<forall>c \<in> set s. c < 0x80)"

subsection \<open>Environments to run the program in\<close>

text \<open>A run starts with nothing sent and nothing printed.\<close>

definition start :: "unit world" where
  "start = \<lparr>remote = (), sent = [], console = []\<rparr>"

text \<open>The options at their defaults; \<open>--cart\<close> has none.\<close>

definition defaults :: program where
  "defaults =
     \<lparr>program_key = js ''localhost'', program_keyfile = js ''keypairs.json'',
      program_cart = None,
      program_query =
        js ''type=Experiment&status=released&perturbed=false&assay_title=siRNA+RNA-seq''\<rparr>"

text \<open>The names of the properties of \<open>Object.prototype\<close>, which every value inherits.\<close>

definition object_prototype :: "js_string list" where
  "object_prototype =
     map js [''constructor'', ''hasOwnProperty'', ''isPrototypeOf'', ''propertyIsEnumerable'',
       ''toLocaleString'', ''toString'', ''valueOf'', ''__proto__'', ''__defineGetter__'',
       ''__defineSetter__'', ''__lookupGetter__'', ''__lookupSetter__'']"

text \<open>A keyfile with the one entry \<open>localhost\<close>: its text and what it parses to.\<close>

definition keyfile_text :: js_string where
  \<open>keyfile_text =
     js ''{"localhost":{"server":"http://localhost:6543","key":"ABCDEFGH","secret":"abcdefgh12345678"}}''\<close>

definition keyfile_value :: jsval where
  "keyfile_value =
     Obj [(js ''localhost'',
           Obj [(js ''server'', Str (js ''http://localhost:6543'')),
                (js ''key'', Str (js ''ABCDEFGH'')),
                (js ''secret'', Str (js ''abcdefgh12345678''))])]"

text \<open>The bodies of the responses in the examples, and what they parse to.\<close>

definition two_ids_text :: js_string where
  \<open>two_ids_text = js ''{"@graph":[{"@id":"/a/1"},{"@id":"/a/2"}]}''\<close>

definition two_ids_value :: jsval where
  "two_ids_value =
     Obj [(js ''@graph'', Arr [Obj [(js ''@id'', Str (js ''/a/1''))],
                               Obj [(js ''@id'', Str (js ''/a/2''))]])]"

definition null_element_text :: js_string where
  \<open>null_element_text = js ''{"@graph":[{"@id":"/a/1"},null]}''\<close>

definition null_element_value :: jsval where
  "null_element_value =
     Obj [(js ''@graph'', Arr [Obj [(js ''@id'', Str (js ''/a/1''))], Null])]"

definition written_cart_text :: js_string where
  \<open>written_cart_text = js ''{"@graph":[{"elements":["/x/1","/x/2"]}]}''\<close>

definition written_cart_value :: jsval where
  "written_cart_value =
     Obj [(js ''@graph'',
           Arr [Obj [(js ''elements'', Arr [Str (js ''/x/1''), Str (js ''/x/2'')])]])]"

text \<open>
  \<open>fetch\<close> rejects a URL that is not absolute, as the one built from a server that is
  \<open>undefined\<close>, without reaching any server.
\<close>

definition absolute :: "js_string \<Rightarrow> bool" where
  "absolute target \<longleftrightarrow> take 7 target = js ''http://'' \<or> take 8 target = js ''https://''"

text \<open>The keyfile above, and a server that answers every request 500.\<close>

definition failing_runtime :: "unit runtime" where
  "failing_runtime =
     \<lparr>fs_readFile =
        (\<lambda>path. if path = js ''keypairs.json'' then Inr keyfile_text else Inl SystemError),
      JSON_parse = map_of [(keyfile_text, keyfile_value)],
      fetch =
        (\<lambda>req s. if absolute (url req)
                   then (Inr (Response False (js ''Internal Server Error'')), s)
                   else (Inl (TypeError Invalid_URL), s)),
      inherits = (\<lambda>v name. name \<in> set object_prototype)\<rparr>"

text \<open>A keyfile that is not JSON.\<close>

definition unparsable_runtime :: "unit runtime" where
  "unparsable_runtime =
     \<lparr>fs_readFile =
        (\<lambda>path. if path = js ''keypairs.json'' then Inr (js ''{localhost'') else Inl SystemError),
      JSON_parse = map_of [(keyfile_text, keyfile_value)],
      fetch =
        (\<lambda>req s. if absolute (url req)
                   then (Inr (Response False (js ''Internal Server Error'')), s)
                   else (Inl (TypeError Invalid_URL), s)),
      inherits = (\<lambda>v name. name \<in> set object_prototype)\<rparr>"

text \<open>A server that answers every request 200 with the given body.\<close>

definition answering :: "js_string \<Rightarrow> jsval \<Rightarrow> unit runtime" where
  "answering contents parsed =
     \<lparr>fs_readFile = (\<lambda>path. Inl SystemError),
      JSON_parse = map_of [(contents, parsed)],
      fetch =
        (\<lambda>req s. if absolute (url req) then (Inr (Response True contents), s)
                   else (Inl (TypeError Invalid_URL), s)),
      inherits = (\<lambda>v name. name \<in> set object_prototype)\<rparr>"

text \<open>
  The keyfile above, and a server that answers the default search with two identifiers and
  has no cart: every other request is answered 404.
\<close>

definition default_search :: js_string where
  "default_search =
     js ''http://localhost:6543/search/?type=Experiment&status=released&perturbed=false&assay_title=siRNA+RNA-seq&limit=all''"

definition cart_missing_runtime :: "unit runtime" where
  "cart_missing_runtime =
     \<lparr>fs_readFile =
        (\<lambda>path. if path = js ''keypairs.json'' then Inr keyfile_text else Inl SystemError),
      JSON_parse = map_of [(keyfile_text, keyfile_value), (two_ids_text, two_ids_value)],
      fetch =
        (\<lambda>req s. if \<not> absolute (url req) then (Inl (TypeError Invalid_URL), s)
                   else if verb req = GET \<and> url req = default_search
                   then (Inr (Response True two_ids_text), s)
                   else (Inr (Response False (js ''Not Found'')), s)),
      inherits = (\<lambda>v name. name \<in> set object_prototype)\<rparr>"

section \<open>Properties of the set comparator\<close>

lemma at_index_append: "at_index (pre @ y # ys) (length pre) = Some y"
  by (simp add: at_index_def)

lemma filter_from_subset: "set (filter_from i p xs) \<subseteq> set xs"
  by (induction xs arbitrary: i) auto

text \<open>
  The index handed to the predicate runs in step with the second array: with \<open>pre\<close> the part
  of the second array already passed, filtering is the pairwise walk.
\<close>

lemma filter_from_positional:
  "length xs = length ys \<Longrightarrow>
   filter_from (length pre) (\<lambda>x i. Some x \<noteq> at_index (pre @ ys) i) xs
     = positional_difference xs ys"
proof (induction xs ys arbitrary: pre rule: list_induct2)
  case Nil
  show ?case by (simp add: positional_difference_def)
next
  case (Cons x xs y ys)
  have "filter_from (Suc (length pre)) (\<lambda>x i. Some x \<noteq> at_index (pre @ y # ys) i) xs
        = positional_difference xs ys"
    using Cons.IH [of "pre @ [y]"] by simp
  then show ?case
    by (simp add: at_index_append positional_difference_def)
qed

lemma positional_difference_same: "positional_difference xs xs = []"
  by (induction xs) (simp_all add: positional_difference_def)

lemma compareCarts_equal_length:
  "length a = length b \<Longrightarrow>
   compareCarts a b = Differences (positional_difference (sort a) (sort b))"
  using filter_from_positional [of "sort a" "sort b" "[]"]
  by (simp add: compareCarts_def sortBy_def)

lemma compareCarts_c_b:
  "compareCarts [js ''/a'', js ''/c''] [js ''/a'', js ''/b''] = Differences [js ''/c'']"
  by (simp add: compareCarts_def sortBy_def at_index_def js_def)

lemma compareCarts_b_c:
  "compareCarts [js ''/a'', js ''/b''] [js ''/a'', js ''/c''] = Differences [js ''/b'']"
  by (simp add: compareCarts_def sortBy_def at_index_def js_def)

lemma compareCarts_sizes:
  "compareCarts [js ''/a''] [js ''/a'', js ''/b''] = ReturnsFalse"
  by (simp add: compareCarts_def)

text \<open>
  Claim C1. Given two identifier sequences of different lengths the comparator returns
  \<open>false\<close>. Given two of the same length it sorts each by the natural string order and returns
  the elements of the first sorted sequence whose counterpart at the same index of the second
  sorted sequence differs. So \<open>compare(["/a","/c"], ["/a","/b"])\<close> is \<open>["/c"]\<close> and
  \<open>compare(["/a"], ["/a","/b"])\<close> is \<open>false\<close>.
\<close>

theorem compareCarts_spec:
  "(length a \<noteq> length b \<longrightarrow> compareCarts a b = ReturnsFalse) \<and>
   (length a = length b \<longrightarrow>
      compareCarts a b = Differences (positional_difference (sort a) (sort b))) \<and>
   compareCarts [js ''/a'', js ''/c''] [js ''/a'', js ''/b''] = Differences [js ''/c''] \<and>
   compareCarts [js ''/a''] [js ''/a'', js ''/b''] = ReturnsFalse"
proof (intro conjI impI)
  assume "length a \<noteq> length b"
  then show "compareCarts a b = ReturnsFalse"
    by (simp add: compareCarts_def)
next
  assume "length a = length b"
  then show "compareCarts a b = Differences (positional_difference (sort a) (sort b))"
    by (rule compareCarts_equal_length)
next
  show "compareCarts [js ''/a'', js ''/c''] [js ''/a'', js ''/b''] = Differences [js ''/c'']"
    by (rule compareCarts_c_b)
next
  show "compareCarts [js ''/a''] [js ''/a'', js ''/b''] = ReturnsFalse"
    by (rule compareCarts_sizes)
qed

theorem compareCarts_spec_witness:
  "length [js ''/b'', js ''/a''] = length [js ''/a'', js ''/b''] \<and>
   compareCarts [js ''/b'', js ''/a''] [js ''/a'', js ''/b''] = Differences [] \<and>
   length [js ''/a''] \<noteq> length [js ''/a'', js ''/b'', js ''/c''] \<and>
   compareCarts [js ''/a''] [js ''/a'', js ''/b'', js ''/c''] = ReturnsFalse"
  using compareCarts_spec [of "[js ''/b'', js ''/a'']" "[js ''/a'', js ''/b'']"]
    compareCarts_spec [of "[js ''/a'']" "[js ''/a'', js ''/b'', js ''/c'']"]
  by (simp add: positional_difference_def js_def)

text \<open>
  Claim C4. The comparator is not the symmetric difference of the two inputs seen as sets:
  there are two sequences of the same length, the first with a repeated value, for which the
  returned collection names a value that is in both sets and misses a value that is in only
  one of them.
\<close>

theorem compareCarts_not_symmetric_difference:
  "\<exists>a b r x y. length a = length b \<and> \<not> distinct a \<and> compareCarts a b = Differences r \<and>
     set r \<noteq> symmetric_difference (set a) (set b) \<and>
     x \<in> set r \<and> x \<notin> symmetric_difference (set a) (set b) \<and>
     y \<notin> set r \<and> y \<in> symmetric_difference (set a) (set b)"
proof -
  let ?a = "[js ''/a'', js ''/a'']" and ?b = "[js ''/a'', js ''/b'']"
  have r: "compareCarts ?a ?b = Differences [js ''/a'']"
    by (simp add: compareCarts_def sortBy_def at_index_def js_def)
  have d: "symmetric_difference (set ?a) (set ?b) = {js ''/b''}"
    by (auto simp add: symmetric_difference_def js_def)
  have n: "js ''/a'' \<noteq> js ''/b''"
    by (simp add: js_def)
  have "length ?a = length ?b \<and> \<not> distinct ?a \<and> compareCarts ?a ?b = Differences [js ''/a''] \<and>
     set [js ''/a''] \<noteq> symmetric_difference (set ?a) (set ?b) \<and>
     js ''/a'' \<in> set [js ''/a''] \<and> js ''/a'' \<notin> symmetric_difference (set ?a) (set ?b) \<and>
     js ''/b'' \<notin> set [js ''/a''] \<and> js ''/b'' \<in> symmetric_difference (set ?a) (set ?b)"
    using r n unfolding d by simp
  then show ?thesis by blast
qed

text \<open>
  Claim C9. For two sequences of the same length every identifier the comparator returns is
  an element of the first sequence, and no value found only in the second sequence is
  returned. The result therefore depends on the order of the arguments: swapping them can
  change it.
\<close>

theorem compareCarts_reports_first_only:
  "length a = length b \<Longrightarrow>
   (\<exists>r. compareCarts a b = Differences r \<and> set r \<subseteq> set a \<and> (\<forall>x \<in> set b - set a. x \<notin> set r)) \<and>
   (\<exists>c d. length c = length d \<and> compareCarts c d \<noteq> compareCarts d c)"
proof
  assume len: "length a = length b"
  define r where "r = filter_from 0 (\<lambda>x i. Some x \<noteq> at_index (sortBy b) i) (sortBy a)"
  have res: "compareCarts a b = Differences r"
    using len by (simp add: compareCarts_def r_def)
  have "set r \<subseteq> set (sortBy a)"
    unfolding r_def by (rule filter_from_subset)
  then have sub: "set r \<subseteq> set a"
    by (simp add: sortBy_def)
  then have "\<forall>x \<in> set b - set a. x \<notin> set r"
    by blast
  with res sub
  show "\<exists>r. compareCarts a b = Differences r \<and> set r \<subseteq> set a \<and> (\<forall>x \<in> set b - set a. x \<notin> set r)"
    by blast
next
  have "js ''/c'' \<noteq> js ''/b''"
    by (simp add: js_def)
  then have "compareCarts [js ''/a'', js ''/c''] [js ''/a'', js ''/b'']
      \<noteq> compareCarts [js ''/a'', js ''/b''] [js ''/a'', js ''/c'']"
    by (simp add: compareCarts_c_b compareCarts_b_c)
  moreover have "length [js ''/a'', js ''/c''] = length [js ''/a'', js ''/b'']"
    by simp
  ultimately show "\<exists>c d. length c = length d \<and> compareCarts c d \<noteq> compareCarts d c"
    by blast
qed

theorem compareCarts_reports_first_only_witness:
  "length [js ''/a'', js ''/c''] = length [js ''/a'', js ''/b''] \<and>
   (\<exists>r. compareCarts [js ''/a'', js ''/c''] [js ''/a'', js ''/b''] = Differences r \<and>
        set r \<subseteq> set [js ''/a'', js ''/c''] \<and> js ''/b'' \<notin> set r)"
proof -
  have len: "length [js ''/a'', js ''/c''] = length [js ''/a'', js ''/b'']"
    by simp
  have b: "js ''/b'' \<in> set [js ''/a'', js ''/b''] - set [js ''/a'', js ''/c'']"
    by (simp add: js_def)
  from compareCarts_reports_first_only [OF len] b len show ?thesis
    by blast
qed

text \<open>
  Claim C10. The comparator is reflexive: comparing any sequence with itself, repeated values
  or not, returns the empty collection, never \<open>false\<close> and never a non-empty collection.
\<close>

theorem compareCarts_reflexive: "compareCarts a a = Differences []"
  by (simp add: compareCarts_equal_length positional_difference_same)

section \<open>Properties of the auth encoder\<close>

subsection \<open>Base64\<close>

lemma base64_value_char: "n < 64 \<Longrightarrow> base64_value (base64_char n) = Some n"
  by (auto simp add: base64_value_def base64_char_def)

lemma base64_char_not_pad: "n < 64 \<Longrightarrow> base64_char n \<noteq> 61"
  by (auto simp add: base64_char_def)

lemma sextets_first: "b < 256 \<Longrightarrow> a div 4 * 4 + (a mod 4 * 16 + b div 16) div 16 = (a::nat)"
  by simp

lemma sextets_second:
  assumes "b < 256" and "c < 256"
  shows "(a mod 4 * 16 + b div 16) mod 16 * 16 + (b mod 16 * 4 + c div 64) div 4 = (b::nat)"
proof -
  have "b div 16 < 16" using assms(1) by simp
  then have "(a mod 4 * 16 + b div 16) mod 16 = b div 16" by simp
  moreover have "(b mod 16 * 4 + c div 64) div 4 = b mod 16" using assms(2) by simp
  ultimately show ?thesis by simp
qed

lemma sextets_third:
  assumes "c < 256"
  shows "(b mod 16 * 4 + c div 64) mod 4 * 64 + c mod 64 = (c::nat)"
proof -
  have "c div 64 < 4" using assms by simp
  then have "(b mod 16 * 4 + c div 64) mod 4 = c div 64" by simp
  then show ?thesis by simp
qed

lemma sextet_bounds:
  assumes "a < 256" and "b < 256" and "c < 256"
  shows "a div 4 < 64" and "a mod 4 * 16 + b div 16 < 64" and "b mod 16 * 4 + c div 64 < 64"
    and "(c::nat) mod 64 < 64"
proof -
  have "a div 4 < 64" "b div 16 < 16" "c div 64 < 4" using assms by simp_all
  moreover have "a mod 4 < 4" "b mod 16 < 16" by simp_all
  ultimately show "a div 4 < 64" and "a mod 4 * 16 + b div 16 < 64"
    and "b mod 16 * 4 + c div 64 < 64" and "c mod 64 < 64"
    by linarith+
qed

lemma base64_decode_sextets:
  assumes "p < 64" and "q < 64" and "r < 64" and "s < 64"
  shows "base64_decode (base64_char p # base64_char q # base64_char r # base64_char s # tail)
    = map_option
        (\<lambda>bytes. (p * 4 + q div 16) # (q mod 16 * 16 + r div 4) # (r mod 4 * 64 + s) # bytes)
        (base64_decode tail)"
  using assms by (simp add: base64_value_char base64_char_not_pad)

lemma base64_decode_two_pad:
  assumes "p < 64" and "q < 64"
  shows "base64_decode [base64_char p, base64_char q, 61, 61] = Some [p * 4 + q div 16]"
  using assms by (simp add: base64_value_char)

lemma base64_decode_one_pad:
  assumes "p < 64" and "q < 64" and "r < 64"
  shows "base64_decode [base64_char p, base64_char q, base64_char r, 61]
    = Some [p * 4 + q div 16, q mod 16 * 16 + r div 4]"
  using assms by (simp add: base64_value_char base64_char_not_pad)

lemma base64_round_trip:
  "\<forall>b \<in> set bytes. b < 256 \<Longrightarrow> base64_decode (toString_base64 bytes) = Some bytes"
proof (induction bytes rule: toString_base64.induct)
  case 1
  show ?case by simp
next
  case (2 a)
  then have a: "a < 256" by simp
  have "base64_decode [base64_char (a div 4), base64_char (a mod 4 * 16 + 0 div 16), 61, 61]
      = Some [a div 4 * 4 + (a mod 4 * 16 + 0 div 16) div 16]"
    using sextet_bounds(1,2) [OF a, of 0 0] by (intro base64_decode_two_pad) simp_all
  then show ?case
    by simp
next
  case (3 a b)
  then have a: "a < 256" and b: "b < 256" by simp_all
  have "base64_decode [base64_char (a div 4), base64_char (a mod 4 * 16 + b div 16),
        base64_char (b mod 16 * 4 + 0 div 64), 61]
      = Some [a div 4 * 4 + (a mod 4 * 16 + b div 16) div 16,
              (a mod 4 * 16 + b div 16) mod 16 * 16 + (b mod 16 * 4 + 0 div 64) div 4]"
    using sextet_bounds(1,2,3) [OF a b, of 0] by (intro base64_decode_one_pad) simp_all
  then show ?case
    using sextets_first [OF b, of a] sextets_second [OF b, of 0 a] by simp
next
  case (4 a b c rest)
  then have a: "a < 256" and b: "b < 256" and c: "c < 256" by simp_all
  have rest: "base64_decode (toString_base64 rest) = Some rest"
    using 4 by simp
  have "base64_decode (toString_base64 (a # b # c # rest))
      = Some ([a div 4 * 4 + (a mod 4 * 16 + b div 16) div 16,
               (a mod 4 * 16 + b div 16) mod 16 * 16 + (b mod 16 * 4 + c div 64) div 4,
               (b mod 16 * 4 + c div 64) mod 4 * 64 + c mod 64] @ rest)"
    using base64_decode_sextets [OF sextet_bounds [OF a b c], of "toString_base64 rest"] rest
    by simp
  then show ?case
    by (simp only: sextets_first [OF b] sextets_second [OF b c] sextets_third [OF c] append.simps)
qed

subsection \<open>Escaping and unescaping\<close>

lemma hex_digit_value: "n < 16 \<Longrightarrow> hex_value (hex_digit n) = Some n"
  by (auto simp add: hex_value_def hex_digit_def)

lemma hex_digit_not_u: "n < 16 \<Longrightarrow> hex_digit n \<noteq> 117"
  by (auto simp add: hex_digit_def)

lemma unescape_percent:
  assumes "octet < 256"
  shows "unescape (percent octet @ rest) = octet # unescape rest"
proof -
  have hi: "octet div 16 < 16" and lo: "octet mod 16 < 16"
    using assms by arith+
  have "hex_number 2 [hex_digit (octet div 16), hex_digit (octet mod 16)] = Some octet"
    using hi lo by (simp add: hex_number_def hex_digit_value)
  then show ?thesis
    using hi by (simp add: percent_def hex_digit_not_u)
qed

lemma unreserved_not_percent: "unreserved c \<Longrightarrow> c \<noteq> 37"
  by (auto simp add: unreserved_def)

lemma ascii_Cons: "ascii (c # s) \<longleftrightarrow> c < 0x80 \<and> ascii s"
  by (simp add: ascii_def)

lemma ascii_append: "ascii (s @ t) \<longleftrightarrow> ascii s \<and> ascii t"
  by (auto simp add: ascii_def)

lemma ascii_bytes: "ascii s \<Longrightarrow> \<forall>b \<in> set s. b < 256"
  by (auto simp add: ascii_def)

text \<open>On ASCII the escapes are undone one by one.\<close>

lemma unescape_encodeURIComponent_ascii:
  "ascii s \<Longrightarrow> \<exists>escaped. encodeURIComponent s = Inr escaped \<and> unescape escaped = s"
proof (induction s)
  case Nil
  show ?case by simp
next
  case (Cons c s)
  then have c: "c < 0x80" and s: "ascii s"
    by (simp_all add: ascii_Cons)
  from Cons.IH [OF s] obtain escaped
    where e: "encodeURIComponent s = Inr escaped" and u: "unescape escaped = s"
    by blast
  show ?case
  proof (cases "unreserved c")
    case True
    then have "encodeURIComponent (c # s) = Inr (c # escaped)"
      using e by (simp add: and_then_def)
    moreover have "unescape (c # escaped) = c # s"
      using unreserved_not_percent [OF True] u by simp
    ultimately show ?thesis by blast
  next
    case False
    then have "encodeURIComponent (c # s) = Inr (percent c @ escaped)"
      using e c by (simp add: and_then_def utf8_def)
    moreover have "unescape (percent c @ escaped) = c # s"
      using c u by (simp add: unescape_percent)
    ultimately show ?thesis by blast
  qed
qed

lemma Buffer_from_ascii: "ascii s \<Longrightarrow> Buffer_from s = s"
  by (induction s) (simp_all add: ascii_Cons utf8_def)

lemma utf8_decode_ascii: "ascii s \<Longrightarrow> utf8_decode s = Some s"
  by (induction s) (simp_all add: ascii_Cons)

lemma split_first_colon_append:
  "58 \<notin> set key \<Longrightarrow> split_first_colon (key @ 58 # secret) = Some (key, secret)"
  by (induction key) simp_all

lemma js_colon: "js '':'' = [58]"
  by (simp add: js_def)

lemma length_js_Basic: "length (js ''Basic '') = 6"
  by (simp add: js_def)

subsection \<open>The round trip\<close>

text \<open>
  Claim C2, as the specification states it, fails: the round trip does not recover every
  pair. A colon in the key moves the split, since the header has no other separator. A
  character outside ASCII comes back as the characters of its UTF-8 octets: the string
  \<open>unescape\<close> returns holds one octet in each code unit, and \<open>Buffer.from\<close>, reading it as
  text, encodes each of these code units from \<open>0x80\<close> on as two bytes.
\<close>

theorem keypairToAuth_round_trip_counterexample:
  "round_trip (js ''a:b'') (js ''c'') = Some (js ''a'', js ''b:c'') \<and>
   round_trip [0xE9] (js ''s'') = Some ([0xC3, 0xA9], js ''s'')"
  by (simp add: round_trip_def keypairToAuth_def and_then_def js_def unreserved_def utf8_def
      percent_def hex_digit_def hex_number_def hex_value_def base64_char_def decode_basic_def
      base64_value_def continuation_def)

text \<open>
  Claim C2, amended. For every key and secret made of ASCII characters, the key without a
  colon, decoding the payload of the header from base64, reading it as UTF-8 and splitting
  at the first colon recovers exactly the key and the secret.
\<close>

theorem keypairToAuth_round_trip_ascii:
  assumes "ascii key" and "ascii secret" and "58 \<notin> set key"
  shows "round_trip key secret = Some (key, secret)"
proof -
  let ?plain = "key @ 58 # secret"
  have plain: "ascii ?plain"
    using assms by (simp add: ascii_append ascii_Cons)
  from unescape_encodeURIComponent_ascii [OF plain] obtain escaped
    where e: "encodeURIComponent ?plain = Inr escaped" and u: "unescape escaped = ?plain"
    by blast
  have auth: "keypairToAuth (Str key) (Str secret)
      = Inr (js ''Basic '' @ toString_base64 ?plain)"
    using e u by (simp add: keypairToAuth_def and_then_def js_colon Buffer_from_ascii [OF plain])
  have "base64_decode (toString_base64 ?plain) = Some ?plain"
    by (rule base64_round_trip [OF ascii_bytes [OF plain]])
  then have "decode_basic (js ''Basic '' @ toString_base64 ?plain) = Some (key, secret)"
    using assms(3)
    by (simp add: decode_basic_def length_js_Basic utf8_decode_ascii [OF plain]
        split_first_colon_append)
  then show ?thesis
    by (simp add: round_trip_def auth)
qed

theorem keypairToAuth_round_trip_ascii_witness:
  "ascii (js ''user'') \<and> ascii (js ''pa ss%:'') \<and> 58 \<notin> set (js ''user'') \<and>
   round_trip (js ''user'') (js ''pa ss%:'') = Some (js ''user'', js ''pa ss%:'')"
  using keypairToAuth_round_trip_ascii [of "js ''user''" "js ''pa ss%:''"]
  by (simp add: js_def ascii_def)

section \<open>Properties of the clients\<close>

lemma get_property_field:
  "v \<noteq> Undefined \<Longrightarrow> v \<noteq> Null \<Longrightarrow> get_property v name = Inr (field_of v name)"
  by (cases v) (simp_all add: field_of_def split: option.splits)

lemma map_all_fields:
  "\<forall>v \<in> set vs. v \<noteq> Undefined \<and> v \<noteq> Null \<Longrightarrow>
   map_all (\<lambda>v. get_property v name) vs = Inr (map (\<lambda>v. field_of v name) vs)"
  by (induction vs) (simp_all add: get_property_field)

lemma absolute_localhost: "absolute (js ''http://localhost:6543'' @ rest)"
  by (simp add: absolute_def js_def)

text \<open>
  Claim C3. When the request of the Search Client is answered by a response that is not 2xx,
  or whose body does not parse, no exception leaves the call: the error is caught and
  printed, and the promise is fulfilled with \<open>undefined\<close>. The same holds for the Cart Search
  Client.
\<close>

theorem soft_failure:
  assumes "to_string host = Inr h" and "to_string cartId = Inr c"
    and "\<not> ok response \<or> JSON_parse rt (payload response) = None"
  shows
    "(send rt \<lparr>verb = GET, url = h @ js ''/search/?'' @ q @ js ''&limit=all'',
                headers = json_headers auth, body = None\<rparr> w = (Inr response, w') \<longrightarrow>
      getSearchIds rt host q auth w
        = (Inr Undefined,
           print (Line Stdout ''OBJECT LOAD ERROR: %s''
                    [Thrown (if ok response then FetchError else NotOk)]) w')) \<and>
     (send rt \<lparr>verb = GET, url = h @ js ''/cart-search/?cart='' @ c @ js ''&limit=all'',
                headers = json_headers auth, body = None\<rparr> w = (Inr response, w') \<longrightarrow>
      searchCart rt host cartId auth w
        = (Inr Undefined,
           print (Line Stderr ''SEARCH CART ERROR %o''
                    [Thrown (if ok response then FetchError else NotOk)]) w'))"
  using assms
  by (auto simp add: getSearchIds_def searchCart_def and_then_def response_json_def)

theorem soft_failure_witness:
  "getSearchIds failing_runtime (Str (js ''http://localhost:6543'')) (js ''type=Experiment'')
     (js ''Basic QUJDREVGR0g6YWJjZGVmZ2gxMjM0NTY3OA=='') start
   = (Inr Undefined,
      \<lparr>remote = (),
       sent = [\<lparr>verb = GET,
                url = js ''http://localhost:6543'' @ js ''/search/?'' @ js ''type=Experiment''
                      @ js ''&limit=all'',
                headers = json_headers (js ''Basic QUJDREVGR0g6YWJjZGVmZ2gxMjM0NTY3OA==''),
                body = None\<rparr>],
       console = [Line Stdout ''OBJECT LOAD ERROR: %s'' [Thrown NotOk]]\<rparr>) \<and>
   searchCart failing_runtime (Str (js ''http://localhost:6543'')) (Str (js ''/carts/test/''))
     (js ''Basic QUJDREVGR0g6YWJjZGVmZ2gxMjM0NTY3OA=='') start
   = (Inr Undefined,
      \<lparr>remote = (),
       sent = [\<lparr>verb = GET,
                url = js ''http://localhost:6543'' @ js ''/cart-search/?cart=''
                      @ js ''/carts/test/'' @ js ''&limit=all'',
                headers = json_headers (js ''Basic QUJDREVGR0g6YWJjZGVmZ2gxMjM0NTY3OA==''),
                body = None\<rparr>],
       console = [Line Stderr ''SEARCH CART ERROR %o'' [Thrown NotOk]]\<rparr>)"
proof -
  let ?auth = "js ''Basic QUJDREVGR0g6YWJjZGVmZ2gxMjM0NTY3OA==''"
  let ?search = "\<lparr>verb = GET,
      url = js ''http://localhost:6543'' @ js ''/search/?'' @ js ''type=Experiment''
            @ js ''&limit=all'',
      headers = json_headers ?auth, body = None\<rparr>"
  let ?cart_search = "\<lparr>verb = GET,
      url = js ''http://localhost:6543'' @ js ''/cart-search/?cart='' @ js ''/carts/test/''
            @ js ''&limit=all'',
      headers = json_headers ?auth, body = None\<rparr>"
  let ?answer = "Response False (js ''Internal Server Error'')"
  have host: "to_string (Str (js ''http://localhost:6543'')) = Inr (js ''http://localhost:6543'')"
    and cart: "to_string (Str (js ''/carts/test/'')) = Inr (js ''/carts/test/'')"
    by simp_all
  have answer: "\<not> ok ?answer \<or> JSON_parse failing_runtime (payload ?answer) = None"
    by simp
  have first: "send failing_runtime ?search start
      = (Inr ?answer, \<lparr>remote = (), sent = [?search], console = []\<rparr>)"
    by (simp add: send_def failing_runtime_def start_def absolute_localhost)
  have second: "send failing_runtime ?cart_search start
      = (Inr ?answer, \<lparr>remote = (), sent = [?cart_search], console = []\<rparr>)"
    by (simp add: send_def failing_runtime_def start_def absolute_localhost)
  from soft_failure [OF host cart answer, of "js ''type=Experiment''" ?auth start
      "\<lparr>remote = (), sent = [?search], console = []\<rparr>"]
    soft_failure [OF host cart answer, of "js ''type=Experiment''" ?auth start
      "\<lparr>remote = (), sent = [?cart_search], console = []\<rparr>"]
    first second
  show ?thesis
    by (simp add: print_def)
qed

text \<open>
  Claim C5, as the specification states it, fails: a 2xx response whose body holds an array
  \<open>@graph\<close> does not always give the sequence of the \<open>@id\<close> fields. For the body
  \<open>{"@graph":[{"@id":"/a/1"},null]}\<close> the read of \<open>@id\<close> on \<open>null\<close> throws, the error is
  caught and printed as every other, and the Search Client returns \<open>undefined\<close>, not a
  sequence.
\<close>

theorem getSearchIds_ids_counterexample:
  "getSearchIds (answering null_element_text null_element_value)
     (Str (js ''http://localhost:6543'')) (js ''type=Experiment'')
     (js ''Basic QUJDREVGR0g6YWJjZGVmZ2gxMjM0NTY3OA=='') start
   = (Inr Undefined,
      \<lparr>remote = (),
       sent = [\<lparr>verb = GET,
                url = js ''http://localhost:6543'' @ js ''/search/?'' @ js ''type=Experiment''
                      @ js ''&limit=all'',
                headers = json_headers (js ''Basic QUJDREVGR0g6YWJjZGVmZ2gxMjM0NTY3OA==''),
                body = None\<rparr>],
       console = [Line Stdout ''OBJECT LOAD ERROR: %s''
                    [Thrown (TypeError (Cannot_read (js ''@id'')))]]\<rparr>)"
  by (simp add: getSearchIds_def send_def answering_def start_def print_def and_then_def
      response_json_def null_element_value_def absolute_localhost)

text \<open>
  Claim C5, amended. When the search request is answered 2xx with a JSON body that holds an
  array \<open>@graph\<close> none of whose elements is \<open>null\<close> (or \<open>undefined\<close>, which JSON does not
  have), the Search Client returns the \<open>@id\<close> field of each element, \<open>undefined\<close> for an
  element without one, in the order of the array. For the body
  \<open>{"@graph":[{"@id":"/a/1"},{"@id":"/a/2"}]}\<close> it returns \<open>["/a/1", "/a/2"]\<close>.
\<close>

theorem getSearchIds_ids:
  assumes "to_string host = Inr h"
    and "send rt \<lparr>verb = GET, url = h @ js ''/search/?'' @ q @ js ''&limit=all'',
                   headers = json_headers auth, body = None\<rparr> w = (Inr response, w')"
    and "ok response"
    and "JSON_parse rt (payload response) = Some (Obj properties)"
    and "map_of properties (js ''@graph'') = Some (Arr elements)"
    and "\<forall>element \<in> set elements. element \<noteq> Undefined \<and> element \<noteq> Null"
  shows "getSearchIds rt host q auth w
    = (Inr (Arr (map (\<lambda>element. field_of element ''@id'') elements)), w')"
  using assms(1-5) map_all_fields [OF assms(6), of "''@id''"]
  by (simp add: getSearchIds_def and_then_def response_json_def)

theorem getSearchIds_ids_witness:
  "getSearchIds (answering two_ids_text two_ids_value)
     (Str (js ''http://localhost:6543'')) (js ''type=Experiment'')
     (js ''Basic QUJDREVGR0g6YWJjZGVmZ2gxMjM0NTY3OA=='') start
   = (Inr (Arr [Str (js ''/a/1''), Str (js ''/a/2'')]),
      \<lparr>remote = (),
       sent = [\<lparr>verb = GET,
                url = js ''http://localhost:6543'' @ js ''/search/?'' @ js ''type=Experiment''
                      @ js ''&limit=all'',
                headers = json_headers (js ''Basic QUJDREVGR0g6YWJjZGVmZ2gxMjM0NTY3OA==''),
                body = None\<rparr>],
       console = []\<rparr>)"
proof -
  let ?graph = "[Obj [(js ''@id'', Str (js ''/a/1''))], Obj [(js ''@id'', Str (js ''/a/2''))]]"
  let ?rt = "answering two_ids_text two_ids_value"
  let ?req = "\<lparr>verb = GET,
      url = js ''http://localhost:6543'' @ js ''/search/?'' @ js ''type=Experiment''
            @ js ''&limit=all'',
      headers = json_headers (js ''Basic QUJDREVGR0g6YWJjZGVmZ2gxMjM0NTY3OA==''),
      body = None\<rparr>"
  have host: "to_string (Str (js ''http://localhost:6543'')) = Inr (js ''http://localhost:6543'')"
    by simp
  have sent: "send ?rt ?req start
      = (Inr (Response True two_ids_text), \<lparr>remote = (), sent = [?req], console = []\<rparr>)"
    by (simp add: send_def answering_def start_def absolute_localhost)
  have ok: "ok (Response True two_ids_text)"
    by simp
  have parsed: "JSON_parse ?rt (payload (Response True two_ids_text))
      = Some (Obj [(js ''@graph'', Arr ?graph)])"
    by (simp add: answering_def two_ids_value_def)
  have graph: "map_of [(js ''@graph'', Arr ?graph)] (js ''@graph'') = Some (Arr ?graph)"
    by simp
  have elements: "\<forall>element \<in> set ?graph. element \<noteq> Undefined \<and> element \<noteq> Null"
    by simp
  show ?thesis
    using getSearchIds_ids [OF host sent ok parsed graph elements]
    by (simp add: field_of_def)
qed

text \<open>
  Claim C6. When the update of the cart is answered 2xx, the Cart Writer returns the
  \<open>elements\<close> field of the first entry of the array \<open>@graph\<close> of the response, for a response
  that has such an entry. Writing a cart with the elements \<open>["/x/1","/x/2"]\<close> and receiving
  \<open>{"@graph":[{"elements":["/x/1","/x/2"]}]}\<close> yields \<open>["/x/1","/x/2"]\<close>.
\<close>

theorem writeCart_elements:
  assumes "to_string host = Inr h"
    and "get_property cart ''identifier'' = Inr identifier"
    and "to_string identifier = Inr i"
    and "send rt \<lparr>verb = PUT, url = h @ js ''/carts/'' @ i,
                   headers = json_headers auth, body = Some cart\<rparr> w = (Inr response, w')"
    and "ok response"
    and "JSON_parse rt (payload response) = Some (Obj properties)"
    and "map_of properties (js ''@graph'') = Some (Arr (first # others))"
    and "first \<noteq> Undefined" and "first \<noteq> Null"
  shows "writeCart rt host cart auth w = (Inr (field_of first ''elements''), w')"
  using assms(1-7) get_property_field [OF assms(8,9), of "''elements''"]
  by (simp add: writeCart_def and_then_def response_json_def)

theorem writeCart_elements_witness:
  "writeCart (answering written_cart_text written_cart_value)
     (Str (js ''http://localhost:6543''))
     (Obj [(js ''identifier'', Str (js ''test'')),
           (js ''elements'', Arr [Str (js ''/x/1''), Str (js ''/x/2'')])])
     (js ''Basic QUJDREVGR0g6YWJjZGVmZ2gxMjM0NTY3OA=='') start
   = (Inr (Arr [Str (js ''/x/1''), Str (js ''/x/2'')]),
      \<lparr>remote = (),
       sent = [\<lparr>verb = PUT,
                url = js ''http://localhost:6543'' @ js ''/carts/'' @ js ''test'',
                headers = json_headers (js ''Basic QUJDREVGR0g6YWJjZGVmZ2gxMjM0NTY3OA==''),
                body = Some (Obj [(js ''identifier'', Str (js ''test'')),
                                  (js ''elements'',
                                   Arr [Str (js ''/x/1''), Str (js ''/x/2'')])])\<rparr>],
       console = []\<rparr>)"
proof -
  let ?elements = "Arr [Str (js ''/x/1''), Str (js ''/x/2'')]"
  let ?entry = "Obj [(js ''elements'', ?elements)]"
  let ?rt = "answering written_cart_text written_cart_value"
  let ?cart = "Obj [(js ''identifier'', Str (js ''test'')), (js ''elements'', ?elements)]"
  let ?req = "\<lparr>verb = PUT, url = js ''http://localhost:6543'' @ js ''/carts/'' @ js ''test'',
      headers = json_headers (js ''Basic QUJDREVGR0g6YWJjZGVmZ2gxMjM0NTY3OA==''),
      body = Some ?cart\<rparr>"
  have host: "to_string (Str (js ''http://localhost:6543'')) = Inr (js ''http://localhost:6543'')"
    by simp
  have ident: "get_property ?cart ''identifier'' = Inr (Str (js ''test''))"
    by simp
  have i: "to_string (Str (js ''test'')) = Inr (js ''test'')"
    by simp
  have sent: "send ?rt ?req start
      = (Inr (Response True written_cart_text), \<lparr>remote = (), sent = [?req], console = []\<rparr>)"
    by (simp add: send_def answering_def start_def absolute_localhost)
  have ok: "ok (Response True written_cart_text)"
    by simp
  have parsed: "JSON_parse ?rt (payload (Response True written_cart_text))
      = Some (Obj [(js ''@graph'', Arr [?entry])])"
    by (simp add: answering_def written_cart_value_def)
  have graph: "map_of [(js ''@graph'', Arr [?entry])] (js ''@graph'') = Some (Arr (?entry # []))"
    by simp
  have "?entry \<noteq> Undefined" and "?entry \<noteq> Null"
    by simp_all
  from writeCart_elements [OF host ident i sent ok parsed graph this]
  show ?thesis
    by (simp add: field_of_def)
qed

section \<open>Properties of the orchestrator\<close>

lemma credentials_localhost:
  assumes "fs_readFile rt (program_keyfile program) = Inr keyfile_text"
    and "JSON_parse rt keyfile_text = Some keyfile_value"
    and "program_key program = js ''localhost''"
  shows "credentials rt program
    = Inr (Str (js ''http://localhost:6543''),
           js ''Basic QUJDREVGR0g6YWJjZGVmZ2gxMjM0NTY3OA=='')"
proof -
  have entry: "get_computed rt keyfile_value (js ''localhost'')
      = Inr (Found (Obj [(js ''server'', Str (js ''http://localhost:6543'')),
                         (js ''key'', Str (js ''ABCDEFGH'')),
                         (js ''secret'', Str (js ''abcdefgh12345678''))]))"
    by (simp add: keyfile_value_def)
  have auth: "keypairToAuth (Str (js ''ABCDEFGH'')) (Str (js ''abcdefgh12345678''))
      = Inr (js ''Basic QUJDREVGR0g6YWJjZGVmZ2gxMjM0NTY3OA=='')"
    by (simp add: keypairToAuth_def and_then_def js_def unreserved_def utf8_def percent_def
        hex_digit_def hex_number_def hex_value_def base64_char_def)
  have fields: "js ''server'' \<noteq> js ''key''" "js ''server'' \<noteq> js ''secret''"
    "js ''key'' \<noteq> js ''secret''"
    by (simp_all add: js_def)
  show ?thesis
    using assms fields
    by (simp add: credentials_def readKeyfile_def readFile_def and_then_def entry auth
        destructure_def read_selected_def)
qed

text \<open>
  The Cart Reader fails softly: when its request is rejected, or answered by a response that
  is not ok or whose body does not parse, it prints the error and is fulfilled with
  \<open>undefined\<close>.
\<close>

lemma getWriteableCartObject_soft_failure:
  assumes "to_string host = Inr h" and "to_string cartAtId = Inr c"
    and "send rt \<lparr>verb = GET, url = (h @ c) @ js ''?frame=edit'',
                   headers = json_headers auth, body = None\<rparr> w = (settled, w')"
    and "case settled of
           Inl e \<Rightarrow> True
         | Inr response \<Rightarrow> \<not> ok response \<or> JSON_parse rt (payload response) = None"
  shows "\<exists>err. getWriteableCartObject rt host cartAtId auth w
    = (Inr Undefined, print (Line Stderr ''Retrieving writeable cart object'' [Thrown err]) w')"
  using assms
  by (auto simp add: getWriteableCartObject_def and_then_def response_json_def
      split: sum.splits)

text \<open>
  After a Cart Reader that resolved to \<open>undefined\<close> the next statement, the assignment,
  throws, and \<open>main\<close> ends there.
\<close>

lemma main_stops_at_assignment:
  assumes "credentials rt program = Inr (server, auth)"
    and "getSearchIds rt server (program_query program) auth w = (Inr itemIds, w1)"
    and "getWriteableCartObject rt server (cart_argument program) auth w1 = (Inr Undefined, w2)"
  shows "main rt program w = (Throw (TypeError (Cannot_set (js ''elements''))), w2)"
  using assms by (simp add: main_def)

text \<open>
  Claim C7. In every run in which the Cart Reader resolves to \<open>undefined\<close>, the assignment
  to \<open>cart.elements\<close> that follows is not guarded and throws: the \<open>TypeError\<close> is the one of
  setting \<open>elements\<close> on \<open>undefined\<close>. It rejects the promise of \<open>main\<close>, nothing handles the
  rejection, and the process is aborted with that error; it does not end normally. The world
  is left as the Cart Reader left it: no cart is written, no cart search is made and no
  report is printed.
\<close>

theorem main_without_cart:
  assumes "credentials rt program = Inr (server, auth)"
    and "getSearchIds rt server (program_query program) auth w = (Inr itemIds, w1)"
    and "getWriteableCartObject rt server (cart_argument program) auth w1 = (Inr Undefined, w2)"
  shows "set_property Undefined ''elements'' itemIds
           = Inl (TypeError (Cannot_set (js ''elements''))) \<and>
         main rt program w = (Throw (TypeError (Cannot_set (js ''elements''))), w2) \<and>
         script rt program w = (Aborts (TypeError (Cannot_set (js ''elements''))), w2) \<and>
         script rt program w \<noteq> (Exits_normally, w2)"
  using main_stops_at_assignment [OF assms] by (simp add: script_def)

theorem main_without_cart_witness:
  "main cart_missing_runtime (defaults\<lparr>program_cart := Some (js ''/carts/test/'')\<rparr>) start
   = (Throw (TypeError (Cannot_set (js ''elements''))),
      \<lparr>remote = (),
       sent = [\<lparr>verb = GET, url = default_search,
                headers = json_headers (js ''Basic QUJDREVGR0g6YWJjZGVmZ2gxMjM0NTY3OA==''),
                body = None\<rparr>,
               \<lparr>verb = GET,
                url = (js ''http://localhost:6543'' @ js ''/carts/test/'') @ js ''?frame=edit'',
                headers = json_headers (js ''Basic QUJDREVGR0g6YWJjZGVmZ2gxMjM0NTY3OA==''),
                body = None\<rparr>],
       console = [Line Stderr ''Retrieving writeable cart object'' [Thrown NotOk]]\<rparr>) \<and>
   fst (script cart_missing_runtime (defaults\<lparr>program_cart := Some (js ''/carts/test/'')\<rparr>)
          start)
   = Aborts (TypeError (Cannot_set (js ''elements'')))"
proof -
  let ?run = "defaults\<lparr>program_cart := Some (js ''/carts/test/'')\<rparr>"
  let ?server = "Str (js ''http://localhost:6543'')"
  let ?auth = "js ''Basic QUJDREVGR0g6YWJjZGVmZ2gxMjM0NTY3OA==''"
  let ?search = "\<lparr>verb = GET, url = default_search, headers = json_headers ?auth,
      body = None\<rparr>"
  let ?read = "\<lparr>verb = GET,
      url = (js ''http://localhost:6543'' @ js ''/carts/test/'') @ js ''?frame=edit'',
      headers = json_headers ?auth, body = None\<rparr>"
  let ?w1 = "\<lparr>remote = (), sent = [?search], console = []\<rparr>"
  let ?w2 = "\<lparr>remote = (), sent = [?search, ?read],
      console = [Line Stderr ''Retrieving writeable cart object'' [Thrown NotOk]]\<rparr>"
  have c: "credentials cart_missing_runtime ?run = Inr (?server, ?auth)"
    by (rule credentials_localhost) (simp_all add: cart_missing_runtime_def defaults_def)
  have target: "js ''http://localhost:6543'' @ js ''/search/?'' @ program_query defaults
      @ js ''&limit=all'' = default_search"
    by (simp add: defaults_def default_search_def js_def)
  have differ: "keyfile_text \<noteq> two_ids_text"
    by (simp add: keyfile_text_def two_ids_text_def js_def)
  have reachable: "absolute default_search"
    by (simp add: absolute_def default_search_def js_def)
  have answered: "send cart_missing_runtime ?search start
      = (Inr (Response True two_ids_text), ?w1)"
    using reachable by (simp add: send_def cart_missing_runtime_def start_def)
  have parsed: "JSON_parse cart_missing_runtime two_ids_text = Some two_ids_value"
    using differ by (simp add: cart_missing_runtime_def)
  have s: "getSearchIds cart_missing_runtime ?server (program_query ?run) ?auth start
      = (Inr (Arr [Str (js ''/a/1''), Str (js ''/a/2'')]), ?w1)"
    using answered parsed
    by (simp add: getSearchIds_def target and_then_def response_json_def two_ids_value_def)
  have other: "(js ''http://localhost:6543'' @ js ''/carts/test/'') @ js ''?frame=edit''
      \<noteq> default_search"
    by (simp add: default_search_def js_def)
  have missing: "send cart_missing_runtime ?read ?w1
      = (Inr (Response False (js ''Not Found'')), ?w1\<lparr>sent := [?search, ?read]\<rparr>)"
    using absolute_localhost [of "js ''/carts/test/'' @ js ''?frame=edit''"] other
    by (simp add: send_def cart_missing_runtime_def)
  have r: "getWriteableCartObject cart_missing_runtime ?server (cart_argument ?run) ?auth ?w1
      = (Inr Undefined, ?w2)"
    using missing
    by (simp add: getWriteableCartObject_def cart_argument_def defaults_def and_then_def
        print_def)
  from main_without_cart [OF c s r] show ?thesis
    by simp
qed

text \<open>
  Claim C8, as the specification states it, fails in its second half: a name that the
  keyfile does not hold need not make the caller fail when it reads the entry. For
  \<open>--key constructor\<close> the selection finds what every object inherits, the reads of
  \<open>server\<close>, \<open>key\<close> and \<open>secret\<close> on it give \<open>undefined\<close> without throwing, and the run
  goes on with the server \<open>undefined\<close> and the credentials \<open>undefined:undefined\<close>; it fails
  later, when it sets the elements of the cart it could not fetch.
\<close>

theorem keyfile_failures_counterexample:
  "readKeyfile failing_runtime (js ''keypairs.json'') = Inr keyfile_value \<and>
   field_of keyfile_value ''constructor'' = Undefined \<and>
   credentials failing_runtime (defaults\<lparr>program_key := js ''constructor''\<rparr>)
     = Inr (Undefined, js ''Basic dW5kZWZpbmVkOnVuZGVmaW5lZA=='') \<and>
   fst (main failing_runtime (defaults\<lparr>program_key := js ''constructor''\<rparr>) start)
     = Throw (TypeError (Cannot_set (js ''elements'')))"
proof -
  let ?run = "defaults\<lparr>program_key := js ''constructor''\<rparr>"
  have keyfile: "readKeyfile failing_runtime (js ''keypairs.json'') = Inr keyfile_value"
    by (simp add: readKeyfile_def readFile_def and_then_def failing_runtime_def)
  have absent: "field_of keyfile_value ''constructor'' = Undefined"
    by (simp add: field_of_def keyfile_value_def js_def)
  have entry: "get_computed failing_runtime keyfile_value (js ''constructor'') = Inr Builtin"
    by (simp add: keyfile_value_def inherited_def failing_runtime_def object_prototype_def
        js_def)
  have auth: "keypairToAuth Undefined Undefined = Inr (js ''Basic dW5kZWZpbmVkOnVuZGVmaW5lZA=='')"
    by (simp add: keypairToAuth_def and_then_def js_def unreserved_def utf8_def percent_def
        hex_digit_def hex_number_def hex_value_def base64_char_def)
  have c: "credentials failing_runtime ?run
      = Inr (Undefined, js ''Basic dW5kZWZpbmVkOnVuZGVmaW5lZA=='')"
    using keyfile
    by (simp add: credentials_def defaults_def and_then_def entry auth destructure_def
        read_selected_def)
  have relative: "\<not> absolute (js ''undefined'' @ rest)" for rest
    by (simp add: absolute_def js_def)
  have "\<exists>w1. getSearchIds failing_runtime Undefined (program_query ?run)
      (js ''Basic dW5kZWZpbmVkOnVuZGVmaW5lZA=='') start = (Inr Undefined, w1)"
    using relative
    by (simp add: getSearchIds_def send_def failing_runtime_def and_then_def)
  then obtain w1 where s: "getSearchIds failing_runtime Undefined (program_query ?run)
      (js ''Basic dW5kZWZpbmVkOnVuZGVmaW5lZA=='') start = (Inr Undefined, w1)"
    by blast
  have "\<exists>w2. getWriteableCartObject failing_runtime Undefined (cart_argument ?run)
      (js ''Basic dW5kZWZpbmVkOnVuZGVmaW5lZA=='') w1 = (Inr Undefined, w2)"
    using relative
    by (simp add: getWriteableCartObject_def cart_argument_def defaults_def send_def
        failing_runtime_def and_then_def)
  then obtain w2 where r: "getWriteableCartObject failing_runtime Undefined
      (cart_argument ?run) (js ''Basic dW5kZWZpbmVkOnVuZGVmaW5lZA=='') w1 = (Inr Undefined, w2)"
    by blast
  have m: "fst (main failing_runtime ?run start) = Throw (TypeError (Cannot_set (js ''elements'')))"
    by (simp add: main_stops_at_assignment [OF c s r])
  from keyfile absent c m show ?thesis
    by simp
qed

text \<open>
  Claim C8, amended. When the contents of the keyfile are not JSON, the Credential Loader
  fails with the parse error, and the error reaches the caller: \<open>main\<close> is rejected with it
  before anything is sent or printed, and the run is aborted. Selecting a name that the
  keyfile does not hold, and that objects do not inherit either, does not make the loader
  fail: the loader returns the parsed keyfile, the selection yields \<open>undefined\<close>, and the
  failure comes when \<open>main\<close> takes the \<open>server\<close> of that missing entry.
\<close>

theorem keyfile_failures:
  "(fs_readFile rt (program_keyfile program) = Inr contents \<longrightarrow>
    JSON_parse rt contents = None \<longrightarrow>
      readKeyfile rt (program_keyfile program) = Inl SyntaxError \<and>
      main rt program w = (Throw SyntaxError, w) \<and>
      script rt program w = (Aborts SyntaxError, w)) \<and>
   (fs_readFile rt (program_keyfile program) = Inr contents \<longrightarrow>
    JSON_parse rt contents = Some (Obj entries) \<longrightarrow>
    map_of entries (program_key program) = None \<longrightarrow>
    \<not> inherits rt (Obj entries) (program_key program) \<longrightarrow>
      readKeyfile rt (program_keyfile program) = Inr (Obj entries) \<and>
      get_computed rt (Obj entries) (program_key program) = Inr (Found Undefined) \<and>
      main rt program w = (Throw (TypeError (Cannot_destructure (js ''server''))), w) \<and>
      script rt program w = (Aborts (TypeError (Cannot_destructure (js ''server''))), w))"
  by (simp add: readKeyfile_def readFile_def and_then_def main_def script_def credentials_def
      inherited_def destructure_def)

theorem keyfile_failures_witness:
  "readKeyfile unparsable_runtime (js ''keypairs.json'') = Inl SyntaxError \<and>
   main unparsable_runtime defaults start = (Throw SyntaxError, start) \<and>
   script unparsable_runtime defaults start = (Aborts SyntaxError, start) \<and>
   readKeyfile failing_runtime (js ''keypairs.json'') = Inr keyfile_value \<and>
   get_computed failing_runtime keyfile_value (js ''production'') = Inr (Found Undefined) \<and>
   main failing_runtime (defaults\<lparr>program_key := js ''production''\<rparr>) start
     = (Throw (TypeError (Cannot_destructure (js ''server''))), start) \<and>
   script failing_runtime (defaults\<lparr>program_key := js ''production''\<rparr>) start
     = (Aborts (TypeError (Cannot_destructure (js ''server''))), start)"
proof -
  let ?entries = "[(js ''localhost'',
      Obj [(js ''server'', Str (js ''http://localhost:6543'')),
           (js ''key'', Str (js ''ABCDEFGH'')),
           (js ''secret'', Str (js ''abcdefgh12345678''))])]"
  let ?selected = "defaults\<lparr>program_key := js ''production''\<rparr>"
  have path: "program_keyfile defaults = js ''keypairs.json''"
    "program_keyfile ?selected = js ''keypairs.json''"
    "program_key ?selected = js ''production''"
    by (simp_all add: defaults_def)
  have broken: "js ''{localhost'' \<noteq> keyfile_text"
    by (simp add: keyfile_text_def js_def)
  have bad: "fs_readFile unparsable_runtime (program_keyfile defaults) = Inr (js ''{localhost'')"
    "JSON_parse unparsable_runtime (js ''{localhost'') = None"
    using broken by (simp_all add: unparsable_runtime_def path)
  have good: "fs_readFile failing_runtime (program_keyfile ?selected) = Inr keyfile_text"
    "JSON_parse failing_runtime keyfile_text = Some (Obj ?entries)"
    by (simp_all add: failing_runtime_def path keyfile_value_def)
  have absent: "map_of ?entries (program_key ?selected) = None"
    "\<not> inherits failing_runtime (Obj ?entries) (program_key ?selected)"
    by (simp_all add: path failing_runtime_def object_prototype_def js_def)
  have first: "readKeyfile unparsable_runtime (js ''keypairs.json'') = Inl SyntaxError \<and>
      main unparsable_runtime defaults start = (Throw SyntaxError, start) \<and>
      script unparsable_runtime defaults start = (Aborts SyntaxError, start)"
    using keyfile_failures [of unparsable_runtime defaults "js ''{localhost''" start] bad
    by (simp add: path)
  have second: "readKeyfile failing_runtime (js ''keypairs.json'') = Inr keyfile_value \<and>
      get_computed failing_runtime keyfile_value (js ''production'') = Inr (Found Undefined) \<and>
      main failing_runtime ?selected start
        = (Throw (TypeError (Cannot_destructure (js ''server''))), start) \<and>
      script failing_runtime ?selected start
        = (Aborts (TypeError (Cannot_destructure (js ''server''))), start)"
    using keyfile_failures [of failing_runtime ?selected keyfile_text start ?entries] good absent
    by (simp add: path keyfile_value_def)
  from first second show ?thesis
    by blast
qed

end
